theory Spec2Isabelle
  imports Complex_Main "HOL-Library.Log_Nat"
begin

section \<open>Geometry transform: \<^verbatim>\<open>data/trans.py\<close>\<close>

subsection \<open>Python floats\<close>

text \<open>
  \<^verbatim>\<open>PadResize.__call__\<close> computes \<^verbatim>\<open>int((h/w)*self.w)\<close>: a true division of two
  Python ints, a multiplication of the resulting float by an int, and a truncation.
  Both operations are IEEE 754 binary64 operations, correctly rounded to 53 significant
  bits, ties to even. A float is modelled by the rational it denotes, and
  \<open>fl\<close> rounds an exact rational result to the nearest float. The exponent range is
  not modelled (no overflow, no subnormals): image sizes and quotients of image sizes
  are far inside the normal range.
\<close>

definition pow2 :: "int \<Rightarrow> rat" where
  "pow2 k = (if 0 \<le> k then 2 ^ nat k else 1 / 2 ^ nat (- k))"

definition round_half_even :: "rat \<Rightarrow> int" where
  "round_half_even x =
     (let f = \<lfloor>x\<rfloor>; d = x - of_int f
      in if d < 1 / 2 then f
         else if 1 / 2 < d then f + 1
         else if even f then f else f + 1)"

text \<open>The binary exponent of a positive rational: \<open>2 ^ binade x \<le> x < 2 ^ (binade x + 1)\<close>.\<close>

definition binade :: "rat \<Rightarrow> int" where
  "binade x = (if 1 \<le> x then bitlen \<lfloor>x\<rfloor> - 1 else - bitlen (\<lceil>1 / x\<rceil> - 1))"

definition fl :: "rat \<Rightarrow> rat" where
  "fl x =
     (if x = 0 then 0
      else let a = \<bar>x\<bar>;
               e = binade a - 52;
               m = round_half_even (a / pow2 e)
           in sgn x * of_int m * pow2 e)"

text \<open>\<^verbatim>\<open>a / b\<close> on ints, \<^verbatim>\<open>x * n\<close> for a float and an int, and \<^verbatim>\<open>int(x)\<close>.\<close>

datatype error = ZeroDivisionError

definition truediv :: "int \<Rightarrow> int \<Rightarrow> error + rat" where
  "truediv a b = (if b = 0 then Inl ZeroDivisionError else Inr (fl (of_int a / of_int b)))"

definition float_mul_int :: "rat \<Rightarrow> int \<Rightarrow> rat" where
  "float_mul_int x n = fl (x * fl (of_int n))"

definition py_int :: "rat \<Rightarrow> int" where
  "py_int x = (if 0 \<le> x then \<lfloor>x\<rfloor> else \<lceil>x\<rceil>)"

subsection \<open>Images and the two torchvision operations\<close>







subsection \<open>\<^verbatim>\<open>PadResize\<close>\<close>


text \<open>The scaled height \<^verbatim>\<open>hs = int((h/w)*self.w)\<close>.\<close>

definition scaled_height :: "int \<Rightarrow> int \<Rightarrow> int \<Rightarrow> error + int" where
  "scaled_height h w0 S =
     (case truediv h w0 of
        Inl e \<Rightarrow> Inl e
      | Inr q \<Rightarrow> Inr (py_int (float_mul_int q S)))"



section \<open>Adversarial training: \<^verbatim>\<open>train_GAN.py\<close>\<close>

subsection \<open>Configuration, collaborators and the state of a trainer\<close>

text \<open>The arguments read by the training loop (\<^verbatim>\<open>make_args\<close>).\<close>

record args =
  bs :: nat
  lr :: real
  epochs :: int
  log_step :: int
  alpha :: real

text \<open>
  The networks, the loss functions, automatic differentiation, the optimizers, the
  collation of samples into a batch and \<^verbatim>\<open>cal_psnr\<close> are collaborators from outside
  \<^verbatim>\<open>train_GAN.py\<close>. They are parameters of the model: \<open>'t\<close> are tensors, \<open>'p\<close> and
  \<open>'q\<close> the parameters of the generator and of the discriminator, \<open>'o\<close> and \<open>'r\<close> the
  states of their optimizers. A network is a function of its mode (\<open>True\<close> for
  \<^verbatim>\<open>train()\<close>, \<open>False\<close> for \<^verbatim>\<open>eval()\<close>), its parameters and its input. Loss values
  are real numbers, which idealises the float32 arithmetic of the tensors.
\<close>

record ('t, 'p, 'q, 'o, 'r) env =
  net_G :: "bool \<Rightarrow> 'p \<Rightarrow> 't \<Rightarrow> 't"
  net_D :: "bool \<Rightarrow> 'q \<Rightarrow> 't \<Rightarrow> 't"
  criterion :: "'t \<Rightarrow> 't \<Rightarrow> real"
  criterion_gan :: "'t \<Rightarrow> real \<Rightarrow> real"
  grad_loss_G :: "real \<Rightarrow> 'p \<Rightarrow> 'q \<Rightarrow> 't \<times> 't \<times> 't \<Rightarrow> 'p"
  grad_loss_G_wrt_D :: "real \<Rightarrow> 'p \<Rightarrow> 'q \<Rightarrow> 't \<times> 't \<times> 't \<Rightarrow> 'q"
  grad_loss_D :: "'q \<Rightarrow> 't \<Rightarrow> 't \<Rightarrow> 't \<Rightarrow> 'q"
  AdamW :: "'o \<Rightarrow> 'p \<Rightarrow> 'p \<Rightarrow> 'o \<times> 'p"
  AdamW_D :: "'r \<Rightarrow> 'q \<Rightarrow> 'q \<Rightarrow> 'r \<times> 'q"
  param_group_lr :: "'o \<Rightarrow> real"
  collate :: "('t \<times> 't \<times> 't) list \<Rightarrow> 't \<times> 't \<times> 't"
  cal_psnr :: "'t \<Rightarrow> 't \<Rightarrow> real list"

text \<open>A line written by \<^verbatim>\<open>logger.info\<close>: the values that are formatted into it.\<close>

record train_log =
  log_ep :: nat
  log_epochs :: int
  log_step_no :: nat
  log_len :: nat
  log_loss_G :: real
  log_loss_D :: real
  log_lr :: real

datatype log_line = TrainLog train_log | PsnrLog real

text \<open>
  The state of one process: the two networks with their mode flags and gradients, the
  two optimizers, the local variables of \<^verbatim>\<open>Trainer.train\<close>, the lines logged and the
  checkpoint files written so far. Two fields only observe the run and are read by no
  statement: \<open>D_inputs\<close>, the inputs of the forward passes of the discriminator in
  order, and \<open>history_G\<close> and \<open>history_D\<close>, the generator loss and the discriminator
  loss of every step so far (the values of \<^verbatim>\<open>loss.item()\<close> at lines 117 and 136).
\<close>

record ('t, 'p, 'q, 'o, 'r) trainer =
  net_G_params :: 'p
  net_G_training :: bool
  net_G_requires_grad :: bool
  net_G_grad :: "'p option"
  net_D_params :: 'q
  net_D_training :: bool
  net_D_requires_grad :: bool
  net_D_grad :: "'q option"
  optimizer :: 'o
  optimizer_D :: 'r
  fake_A :: 't
  fake_B :: 't
  pred_fake_A :: 't
  pred_real :: 't
  pred_img_fake :: 't
  pred_fake :: 't
  loss :: real
  loss_sum_G :: real
  loss_sum_D :: real
  logged :: "log_line list"
  files :: "string \<rightharpoonup> 'p"
  D_inputs :: "'t list"
  history_G :: "real list"
  history_D :: "real list"

text \<open>The labels \<^verbatim>\<open>valid = torch.tensor(1.)\<close> and \<^verbatim>\<open>fake = torch.tensor(0.)\<close>.\<close>

definition valid :: real where
  "valid = 1"

definition fake :: real where
  "fake = 0"

subsection \<open>Processes\<close>

text \<open>
  A process of a run of \<^verbatim>\<open>accelerate\<close> has a global index and an index on its own
  machine; \<^verbatim>\<open>is_local_main_process\<close> holds for the process of local index 0 on each
  machine. The logger is disabled on every other process.
\<close>

record process =
  process_index :: nat
  local_process_index :: nat

definition is_local_main_process :: "process \<Rightarrow> bool" where
  "is_local_main_process p = (local_process_index p = 0)"

definition logger_info :: "process \<Rightarrow> log_line \<Rightarrow> ('t, 'p, 'q, 'o, 'r) trainer \<Rightarrow> ('t, 'p, 'q, 'o, 'r) trainer" where
  "logger_info p l s = (if is_local_main_process p then s\<lparr>logged := logged s @ [l]\<rparr> else s)"

subsection \<open>The statements of a training step\<close>

text \<open>
  Every statement of the loop body is a function on the state, named after the call it
  models. A forward pass of a network reads the mode flag and the parameters the
  network has at that moment.
\<close>

definition net_G_train :: "('t, 'p, 'q, 'o, 'r) trainer \<Rightarrow> ('t, 'p, 'q, 'o, 'r) trainer" where
  "net_G_train s = s\<lparr>net_G_training := True\<rparr>"

definition net_G_eval :: "('t, 'p, 'q, 'o, 'r) trainer \<Rightarrow> ('t, 'p, 'q, 'o, 'r) trainer" where
  "net_G_eval s = s\<lparr>net_G_training := False\<rparr>"

definition net_G_set_requires_grad :: "bool \<Rightarrow> ('t, 'p, 'q, 'o, 'r) trainer \<Rightarrow> ('t, 'p, 'q, 'o, 'r) trainer" where
  "net_G_set_requires_grad b s = s\<lparr>net_G_requires_grad := b\<rparr>"

definition net_D_train :: "('t, 'p, 'q, 'o, 'r) trainer \<Rightarrow> ('t, 'p, 'q, 'o, 'r) trainer" where
  "net_D_train s = s\<lparr>net_D_training := True\<rparr>"

definition net_D_eval :: "('t, 'p, 'q, 'o, 'r) trainer \<Rightarrow> ('t, 'p, 'q, 'o, 'r) trainer" where
  "net_D_eval s = s\<lparr>net_D_training := False\<rparr>"

definition net_D_set_requires_grad :: "bool \<Rightarrow> ('t, 'p, 'q, 'o, 'r) trainer \<Rightarrow> ('t, 'p, 'q, 'o, 'r) trainer" where
  "net_D_set_requires_grad b s = s\<lparr>net_D_requires_grad := b\<rparr>"

definition optimizer_zero_grad :: "('t, 'p, 'q, 'o, 'r) trainer \<Rightarrow> ('t, 'p, 'q, 'o, 'r) trainer" where
  "optimizer_zero_grad s = s\<lparr>net_G_grad := None\<rparr>"

definition optimizer_D_zero_grad :: "('t, 'p, 'q, 'o, 'r) trainer \<Rightarrow> ('t, 'p, 'q, 'o, 'r) trainer" where
  "optimizer_D_zero_grad s = s\<lparr>net_D_grad := None\<rparr>"

definition forward_G :: "('t, 'p, 'q, 'o, 'r) env \<Rightarrow> ('t, 'p, 'q, 'o, 'r) trainer \<Rightarrow> 't \<Rightarrow> 't" where
  "forward_G E s x = net_G E (net_G_training s) (net_G_params s) x"

definition forward_D :: "('t, 'p, 'q, 'o, 'r) env \<Rightarrow> ('t, 'p, 'q, 'o, 'r) trainer \<Rightarrow> 't \<Rightarrow> 't" where
  "forward_D E s x = net_D E (net_D_training s) (net_D_params s) x"

text \<open>\<^verbatim>\<open>x.detach()\<close> has the value of \<open>x\<close>; no gradient flows back through it.\<close>

definition detach :: "'t \<Rightarrow> 't" where
  "detach x = x"

text \<open>Lines 108 to 111.\<close>

definition set_fake_A :: "('t, 'p, 'q, 'o, 'r) env \<Rightarrow> 't \<Rightarrow> ('t, 'p, 'q, 'o, 'r) trainer \<Rightarrow> ('t, 'p, 'q, 'o, 'r) trainer" where
  "set_fake_A E img s = s\<lparr>fake_A := forward_G E s img\<rparr>"

definition set_fake_B :: "('t, 'p, 'q, 'o, 'r) env \<Rightarrow> 't \<Rightarrow> ('t, 'p, 'q, 'o, 'r) trainer \<Rightarrow> ('t, 'p, 'q, 'o, 'r) trainer" where
  "set_fake_B E fake_mark s = s\<lparr>fake_B := forward_G E s fake_mark\<rparr>"

definition set_pred_fake_A :: "('t, 'p, 'q, 'o, 'r) env \<Rightarrow> ('t, 'p, 'q, 'o, 'r) trainer \<Rightarrow> ('t, 'p, 'q, 'o, 'r) trainer" where
  "set_pred_fake_A E s =
     s\<lparr>pred_fake_A := forward_D E s (fake_A s), D_inputs := D_inputs s @ [fake_A s]\<rparr>"

definition set_loss_G :: "('t, 'p, 'q, 'o, 'r) env \<Rightarrow> args \<Rightarrow> 't \<Rightarrow> ('t, 'p, 'q, 'o, 'r) trainer \<Rightarrow> ('t, 'p, 'q, 'o, 'r) trainer" where
  "set_loss_G E a img_clean s =
     s\<lparr>loss := criterion_gan E (pred_fake_A s) valid + alpha a * criterion E img_clean (fake_B s)\<rparr>"

text \<open>
  \<^verbatim>\<open>accelerator.backward(loss)\<close> leaves a gradient in the parameters that require one
  and changes no parameter. (An accumulation onto an older gradient is not modelled:
  each phase clears the gradient of the network it trains.)
\<close>

definition backward_G :: "('t, 'p, 'q, 'o, 'r) env \<Rightarrow> args \<Rightarrow> 't \<times> 't \<times> 't \<Rightarrow> ('t, 'p, 'q, 'o, 'r) trainer \<Rightarrow> ('t, 'p, 'q, 'o, 'r) trainer" where
  "backward_G E a batch s =
     s\<lparr>net_G_grad :=
          (if net_G_requires_grad s
           then Some (grad_loss_G E (alpha a) (net_G_params s) (net_D_params s) batch)
           else net_G_grad s),
       net_D_grad :=
          (if net_D_requires_grad s
           then Some (grad_loss_G_wrt_D E (alpha a) (net_G_params s) (net_D_params s) batch)
           else net_D_grad s)\<rparr>"

text \<open>
  \<^verbatim>\<open>self.optimizer\<close> was built over \<^verbatim>\<open>self.net_G.parameters()\<close> and
  \<^verbatim>\<open>self.optimizer_D\<close> over \<^verbatim>\<open>self.net_D.parameters()\<close>: a step of an optimizer
  updates the parameters it was built over, where they have a gradient.
\<close>

definition optimizer_step :: "('t, 'p, 'q, 'o, 'r) env \<Rightarrow> ('t, 'p, 'q, 'o, 'r) trainer \<Rightarrow> ('t, 'p, 'q, 'o, 'r) trainer" where
  "optimizer_step E s =
     (case net_G_grad s of
        None \<Rightarrow> s
      | Some g \<Rightarrow>
          s\<lparr>optimizer := fst (AdamW E (optimizer s) (net_G_params s) g),
            net_G_params := snd (AdamW E (optimizer s) (net_G_params s) g)\<rparr>)"

definition add_loss_sum_G :: "('t, 'p, 'q, 'o, 'r) trainer \<Rightarrow> ('t, 'p, 'q, 'o, 'r) trainer" where
  "add_loss_sum_G s =
     s\<lparr>loss_sum_G := loss_sum_G s + loss s, history_G := history_G s @ [loss s]\<rparr>"

text \<open>Lines 126 to 136.\<close>

definition set_pred_real :: "('t, 'p, 'q, 'o, 'r) env \<Rightarrow> 't \<Rightarrow> ('t, 'p, 'q, 'o, 'r) trainer \<Rightarrow> ('t, 'p, 'q, 'o, 'r) trainer" where
  "set_pred_real E img_clean s =
     s\<lparr>pred_real := forward_D E s img_clean, D_inputs := D_inputs s @ [img_clean]\<rparr>"

definition set_pred_img_fake :: "('t, 'p, 'q, 'o, 'r) env \<Rightarrow> 't \<Rightarrow> ('t, 'p, 'q, 'o, 'r) trainer \<Rightarrow> ('t, 'p, 'q, 'o, 'r) trainer" where
  "set_pred_img_fake E img s =
     s\<lparr>pred_img_fake := forward_D E s img, D_inputs := D_inputs s @ [img]\<rparr>"

definition set_pred_fake :: "('t, 'p, 'q, 'o, 'r) env \<Rightarrow> ('t, 'p, 'q, 'o, 'r) trainer \<Rightarrow> ('t, 'p, 'q, 'o, 'r) trainer" where
  "set_pred_fake E s =
     s\<lparr>pred_fake := forward_D E s (detach (fake_A s)),
       D_inputs := D_inputs s @ [detach (fake_A s)]\<rparr>"

definition set_loss_D :: "('t, 'p, 'q, 'o, 'r) env \<Rightarrow> ('t, 'p, 'q, 'o, 'r) trainer \<Rightarrow> ('t, 'p, 'q, 'o, 'r) trainer" where
  "set_loss_D E s =
     s\<lparr>loss := (criterion_gan E (pred_real s) valid + criterion_gan E (pred_fake s) fake
                + criterion_gan E (pred_img_fake s) fake) / 2\<rparr>"

definition backward_D :: "('t, 'p, 'q, 'o, 'r) env \<Rightarrow> 't \<times> 't \<times> 't \<Rightarrow> ('t, 'p, 'q, 'o, 'r) trainer \<Rightarrow> ('t, 'p, 'q, 'o, 'r) trainer" where
  "backward_D E batch s =
     (case batch of (img, img_clean, fake_mark) \<Rightarrow>
        s\<lparr>net_D_grad :=
             (if net_D_requires_grad s
              then Some (grad_loss_D E (net_D_params s) img_clean img (detach (fake_A s)))
              else net_D_grad s)\<rparr>)"

definition optimizer_D_step :: "('t, 'p, 'q, 'o, 'r) env \<Rightarrow> ('t, 'p, 'q, 'o, 'r) trainer \<Rightarrow> ('t, 'p, 'q, 'o, 'r) trainer" where
  "optimizer_D_step E s =
     (case net_D_grad s of
        None \<Rightarrow> s
      | Some g \<Rightarrow>
          s\<lparr>optimizer_D := fst (AdamW_D E (optimizer_D s) (net_D_params s) g),
            net_D_params := snd (AdamW_D E (optimizer_D s) (net_D_params s) g)\<rparr>)"

definition add_loss_sum_D :: "('t, 'p, 'q, 'o, 'r) trainer \<Rightarrow> ('t, 'p, 'q, 'o, 'r) trainer" where
  "add_loss_sum_D s =
     s\<lparr>loss_sum_D := loss_sum_D s + loss s, history_D := history_D s @ [loss s]\<rparr>"


subsection \<open>The two phases of a step\<close>

text \<open>
  A phase is the list of its statements in source order: lines 102 to 117 and lines 120
  to 136. \<open>run\<close> executes a list of statements; \<open>instants\<close> gives the state after each
  statement, in order.
\<close>

fun run :: "('s \<Rightarrow> 's) list \<Rightarrow> 's \<Rightarrow> 's" where
  "run [] s = s"
| "run (f # fs) s = run fs (f s)"

fun instants :: "('s \<Rightarrow> 's) list \<Rightarrow> 's \<Rightarrow> 's list" where
  "instants [] s = []"
| "instants (f # fs) s = f s # instants fs (f s)"

definition generator_phase :: "('t, 'p, 'q, 'o, 'r) env \<Rightarrow> args \<Rightarrow> 't \<times> 't \<times> 't \<Rightarrow> (('t, 'p, 'q, 'o, 'r) trainer \<Rightarrow> ('t, 'p, 'q, 'o, 'r) trainer) list" where
  "generator_phase E a batch =
     (case batch of (img, img_clean, fake_mark) \<Rightarrow>
        [net_G_train,
         net_G_set_requires_grad True,
         net_D_eval,
         net_D_set_requires_grad False,
         optimizer_zero_grad,
         set_fake_A E img,
         set_fake_B E fake_mark,
         set_pred_fake_A E,
         set_loss_G E a img_clean,
         backward_G E a batch,
         optimizer_step E,
         add_loss_sum_G])"

definition discriminator_phase :: "('t, 'p, 'q, 'o, 'r) env \<Rightarrow> 't \<times> 't \<times> 't \<Rightarrow> (('t, 'p, 'q, 'o, 'r) trainer \<Rightarrow> ('t, 'p, 'q, 'o, 'r) trainer) list" where
  "discriminator_phase E batch =
     (case batch of (img, img_clean, fake_mark) \<Rightarrow>
        [net_G_eval,
         net_G_set_requires_grad False,
         net_D_train,
         net_D_set_requires_grad True,
         optimizer_D_zero_grad,
         set_pred_real E img_clean,
         set_pred_img_fake E img,
         set_pred_fake E,
         set_loss_D E,
         backward_D E batch,
         optimizer_D_step E,
         add_loss_sum_D])"

text \<open>A network is trainable when its parameters require a gradient.\<close>

definition exactly_one_trainable :: "('t, 'p, 'q, 'o, 'r) trainer \<Rightarrow> bool" where
  "exactly_one_trainable s = (net_G_requires_grad s \<noteq> net_D_requires_grad s)"

subsection \<open>Logging, lines 138 to 144\<close>

text \<open>
  \<^verbatim>\<open>step % self.args.log_step\<close> is the remainder of Python ints, which has the sign of
  the divisor as \<open>mod\<close> on \<open>int\<close> has, and raises \<^verbatim>\<open>ZeroDivisionError\<close> for a window of 0.
\<close>

definition log_checkpoint :: "('t, 'p, 'q, 'o, 'r) env \<Rightarrow> args \<Rightarrow> process \<Rightarrow> nat \<Rightarrow> nat \<Rightarrow> nat \<Rightarrow> ('t, 'p, 'q, 'o, 'r) trainer \<Rightarrow> error + ('t, 'p, 'q, 'o, 'r) trainer" where
  "log_checkpoint E a p ep step n s =
     (if log_step a = 0 then Inl ZeroDivisionError
      else if int step mod log_step a = 0
      then Inr ((logger_info p
                  (TrainLog \<lparr>log_ep = ep + 1, log_epochs = epochs a,
                             log_step_no = step + 1, log_len = n,
                             log_loss_G = loss_sum_G s / real_of_int (log_step a),
                             log_loss_D = loss_sum_D s / real_of_int (log_step a),
                             log_lr = param_group_lr E (optimizer s)\<rparr>) s)
                \<lparr>loss_sum_G := 0, loss_sum_D := 0\<rparr>)
      else Inr s)"

text \<open>The body of the inner loop, for the batch number \<open>step\<close> of epoch \<open>ep\<close>.\<close>

definition train_step :: "('t, 'p, 'q, 'o, 'r) env \<Rightarrow> args \<Rightarrow> process \<Rightarrow> nat \<Rightarrow> nat \<Rightarrow> nat \<Rightarrow> 't \<times> 't \<times> 't \<Rightarrow> ('t, 'p, 'q, 'o, 'r) trainer \<Rightarrow> error + ('t, 'p, 'q, 'o, 'r) trainer" where
  "train_step E a p ep step n batch s =
     log_checkpoint E a p ep step n
       (run (discriminator_phase E batch) (run (generator_phase E a batch) s))"

fun step_loop :: "('t, 'p, 'q, 'o, 'r) env \<Rightarrow> args \<Rightarrow> process \<Rightarrow> nat \<Rightarrow> nat \<Rightarrow> nat \<Rightarrow> ('t \<times> 't \<times> 't) list \<Rightarrow> ('t, 'p, 'q, 'o, 'r) trainer \<Rightarrow> error + ('t, 'p, 'q, 'o, 'r) trainer" where
  "step_loop E a p ep step n [] s = Inr s"
| "step_loop E a p ep step n (batch # batches) s =
     (case train_step E a p ep step n batch s of
        Inl e \<Rightarrow> Inl e
      | Inr s' \<Rightarrow> step_loop E a p ep (Suc step) n batches s')"

subsection \<open>Data loaders\<close>

text \<open>
  \<^verbatim>\<open>build_data\<close> makes the two loaders over the whole datasets: the batches of
  \<^verbatim>\<open>batch_size\<close> consecutive samples, the last one shorter when the size does not divide
  the length. The training loader shuffles, so it is given the order of the samples in
  each epoch. \<^verbatim>\<open>__init__\<close> passes both loaders to \<^verbatim>\<open>accelerator.prepare\<close>, which gives
  each process loaders of its own share of the batches, and binds these to the local
  names \<^verbatim>\<open>train_loader\<close> and \<^verbatim>\<open>val_loader\<close>, which are never read:
  \<^verbatim>\<open>self.train_loader\<close> and \<^verbatim>\<open>self.test_loader\<close>, which \<^verbatim>\<open>train\<close> and \<^verbatim>\<open>test\<close>
  iterate, stay the loaders of \<^verbatim>\<open>build_data\<close>.
\<close>

function chunks :: "nat \<Rightarrow> 'a list \<Rightarrow> 'a list list" where
  "chunks k xs = (if k = 0 \<or> xs = [] then [] else take k xs # chunks k (drop k xs))"
  by pat_completeness auto
termination
  by (relation "measure (\<lambda>(k, xs). length xs)") auto

declare chunks.simps [simp del]

definition DataLoader :: "('a list \<Rightarrow> 'b) \<Rightarrow> 'a list \<Rightarrow> nat \<Rightarrow> 'b list" where
  "DataLoader coll dataset batch_size = map coll (chunks batch_size dataset)"

record 't data =
  train_loader :: "nat \<Rightarrow> ('t \<times> 't \<times> 't) list"
  test_loader :: "('t \<times> 't \<times> 't) list"
  data_test :: "('t \<times> 't \<times> 't) list"

definition build_data :: "('t, 'p, 'q, 'o, 'r) env \<Rightarrow> args \<Rightarrow> (nat \<Rightarrow> ('t \<times> 't \<times> 't) list) \<Rightarrow> ('t \<times> 't \<times> 't) list \<Rightarrow> 't data" where
  "build_data E a shuffled_train test_samples =
     \<lparr>train_loader = (\<lambda>ep. DataLoader (collate E) (shuffled_train ep) (bs a)),
      test_loader = DataLoader (collate E) test_samples (bs a),
      data_test = test_samples\<rparr>"

text \<open>The share of a list of batches that \<^verbatim>\<open>prepare\<close> gives to one of \<open>n\<close> processes.\<close>

definition prepare_loader :: "nat \<Rightarrow> process \<Rightarrow> 'b list \<Rightarrow> 'b list" where
  "prepare_loader n p batches =
     map snd (filter (\<lambda>ib. fst ib mod n = process_index p mod n) (zip [0..<length batches] batches))"

definition Trainer_init :: "('t, 'p, 'q, 'o, 'r) env \<Rightarrow> args \<Rightarrow> nat \<Rightarrow> process \<Rightarrow> (nat \<Rightarrow> ('t \<times> 't \<times> 't) list) \<Rightarrow> ('t \<times> 't \<times> 't) list \<Rightarrow> 't data" where
  "Trainer_init E a num_processes p shuffled_train test_samples =
     (let self = build_data E a shuffled_train test_samples;
          train_loader' = (\<lambda>ep. prepare_loader num_processes p (train_loader self ep));
          val_loader' = prepare_loader num_processes p (test_loader self)
      in self)"

subsection \<open>Evaluation, \<^verbatim>\<open>Trainer.test\<close>\<close>

text \<open>
  The local sum: over the batches of \<^verbatim>\<open>self.test_loader\<close>, the sum of the values
  \<^verbatim>\<open>cal_psnr\<close> gives for the samples of the batch, the generator being in \<^verbatim>\<open>eval\<close> mode.
\<close>

fun psnr_loop :: "('t, 'p, 'q, 'o, 'r) env \<Rightarrow> ('t, 'p, 'q, 'o, 'r) trainer \<Rightarrow> ('t \<times> 't \<times> 't) list \<Rightarrow> real \<Rightarrow> real" where
  "psnr_loop E s [] psnr = psnr"
| "psnr_loop E s ((img, img_clean, img_mask) # batches) psnr =
     psnr_loop E s batches (psnr + sum_list (cal_psnr E (forward_G E s img) img_clean))"

definition local_psnr :: "('t, 'p, 'q, 'o, 'r) env \<Rightarrow> 't data \<Rightarrow> ('t, 'p, 'q, 'o, 'r) trainer \<Rightarrow> real" where
  "local_psnr E d s = psnr_loop E (net_G_eval s) (test_loader d) 0"

text \<open>
  \<^verbatim>\<open>accelerator.reduce(psnr, reduction="sum")\<close> gives every process the sum of the
  values of all processes. For one process, \<open>reduce\<close> is what the collective returns to
  it for its own value; \<open>test_all\<close> runs the evaluation on every process of a run and
  gives the mean each of them formats into its log line.
\<close>

definition test :: "('t, 'p, 'q, 'o, 'r) env \<Rightarrow> 't data \<Rightarrow> process \<Rightarrow> (real \<Rightarrow> real) \<Rightarrow> ('t, 'p, 'q, 'o, 'r) trainer \<Rightarrow> ('t, 'p, 'q, 'o, 'r) trainer" where
  "test E d p reduce s =
     (let s1 = net_G_eval s;
          psnr = psnr_loop E s1 (test_loader d) 0;
          psnr = reduce psnr
      in logger_info p (PsnrLog (psnr / real (length (data_test d)))) s1)"

definition reduce_sum :: "real list \<Rightarrow> real" where
  "reduce_sum xs = sum_list xs"

definition test_all :: "('t, 'p, 'q, 'o, 'r) env \<Rightarrow> ('t data \<times> ('t, 'p, 'q, 'o, 'r) trainer) list \<Rightarrow> real list" where
  "test_all E procs =
     map (\<lambda>(d, s). reduce_sum (map (\<lambda>(d', s'). local_psnr E d' s') procs) / real (length (data_test d)))
       procs"

subsection \<open>The epoch loop and the checkpoints\<close>

text \<open>\<^verbatim>\<open>str\<close> of a natural number: its decimal digits.\<close>

definition digit :: "nat \<Rightarrow> char" where
  "digit d = ''0123456789'' ! d"

function str :: "nat \<Rightarrow> string" where
  "str n = (if n < 10 then [digit n] else str (n div 10) @ [digit (n mod 10)])"
  by pat_completeness auto
termination
  by (relation "measure id") auto

declare str.simps [simp del]

definition checkpoint_path :: "nat \<Rightarrow> string" where
  "checkpoint_path ep = ''output_GAN/ep_'' @ str ep @ ''.pth''"

text \<open>\<^verbatim>\<open>torch.save(self.net_G.state_dict(), ...)\<close> on the local main process.\<close>

definition save_checkpoint :: "process \<Rightarrow> nat \<Rightarrow> ('t, 'p, 'q, 'o, 'r) trainer \<Rightarrow> ('t, 'p, 'q, 'o, 'r) trainer" where
  "save_checkpoint p ep s =
     (if is_local_main_process p
      then s\<lparr>files := (files s)(checkpoint_path ep \<mapsto> net_G_params s)\<rparr>
      else s)"

definition epoch_body :: "('t, 'p, 'q, 'o, 'r) env \<Rightarrow> args \<Rightarrow> 't data \<Rightarrow> process \<Rightarrow> (nat \<Rightarrow> real \<Rightarrow> real) \<Rightarrow> nat \<Rightarrow> ('t, 'p, 'q, 'o, 'r) trainer \<Rightarrow> error + ('t, 'p, 'q, 'o, 'r) trainer" where
  "epoch_body E a d p reduce ep s =
     (case step_loop E a p ep 0 (length (train_loader d ep)) (train_loader d ep) s of
        Inl e \<Rightarrow> Inl e
      | Inr s1 \<Rightarrow> Inr (save_checkpoint p ep (test E d p (reduce ep) s1)))"

fun epoch_loop :: "('t, 'p, 'q, 'o, 'r) env \<Rightarrow> args \<Rightarrow> 't data \<Rightarrow> process \<Rightarrow> (nat \<Rightarrow> real \<Rightarrow> real) \<Rightarrow> nat list \<Rightarrow> ('t, 'p, 'q, 'o, 'r) trainer \<Rightarrow> error + ('t, 'p, 'q, 'o, 'r) trainer" where
  "epoch_loop E a d p reduce [] s = Inr s"
| "epoch_loop E a d p reduce (ep # eps) s =
     (case epoch_body E a d p reduce ep s of
        Inl e \<Rightarrow> Inl e
      | Inr s' \<Rightarrow> epoch_loop E a d p reduce eps s')"

definition train :: "('t, 'p, 'q, 'o, 'r) env \<Rightarrow> args \<Rightarrow> 't data \<Rightarrow> process \<Rightarrow> (nat \<Rightarrow> real \<Rightarrow> real) \<Rightarrow> ('t, 'p, 'q, 'o, 'r) trainer \<Rightarrow> error + ('t, 'p, 'q, 'o, 'r) trainer" where
  "train E a d p reduce s =
     epoch_loop E a d p reduce [0..<nat (epochs a)] (s\<lparr>loss_sum_G := 0, loss_sum_D := 0\<rparr>)"


subsection \<open>An accumulator as a function of the losses\<close>

text \<open>
  What lines 117, 136 and 138 to 144 do to one running-loss accumulator over consecutive
  steps, given the losses of these steps and the number of the first of them: each step
  adds its loss, and a step whose number is a multiple of the window then resets the
  accumulator to 0.
\<close>

fun window_sum :: "int \<Rightarrow> nat \<Rightarrow> real list \<Rightarrow> real \<Rightarrow> real" where
  "window_sum L step [] acc = acc"
| "window_sum L step (x # xs) acc =
     window_sum L (Suc step) xs (if int step mod L = 0 then 0 else acc + x)"

subsection \<open>Stand-in collaborators for concrete runs\<close>

text \<open>
  Deterministic stand-ins, used where a run is evaluated on a concrete input. Tensors
  and parameters are real numbers, both networks return their input, the adversarial
  loss is the squared distance to the label, the reconstruction loss the absolute
  distance, all gradients are 0, an optimizer step subtracts the learning rate times the
  gradient, and every sample has a PSNR of 30. A batch holds one sample.
\<close>

definition stub_env :: "(real, real, real, real, real) env" where
  "stub_env =
     \<lparr>net_G = (\<lambda>m p x. x),
      net_D = (\<lambda>m q x. x),
      criterion = (\<lambda>x y. \<bar>x - y\<bar>),
      criterion_gan = (\<lambda>x l. (x - l) * (x - l)),
      grad_loss_G = (\<lambda>al p q b. 0),
      grad_loss_G_wrt_D = (\<lambda>al p q b. 0),
      grad_loss_D = (\<lambda>q x y z. 0),
      AdamW = (\<lambda>st p g. (st, p - st * g)),
      AdamW_D = (\<lambda>st q g. (st, q - st * g)),
      param_group_lr = (\<lambda>st. st),
      collate = (\<lambda>xs. case xs of [] \<Rightarrow> (0, 0, 0) | x # _ \<Rightarrow> x),
      cal_psnr = (\<lambda>x y. [30])\<rparr>"

definition stub_args :: args where
  "stub_args = \<lparr>bs = 1, lr = 1 / 1000, epochs = 2, log_step = 2, alpha = 1 / 10\<rparr>"

text \<open>A trainer as \<^verbatim>\<open>__init__\<close> leaves it: both networks trainable and in training mode.\<close>

definition stub_trainer :: "(real, real, real, real, real) trainer" where
  "stub_trainer =
     \<lparr>net_G_params = 0, net_G_training = True, net_G_requires_grad = True, net_G_grad = None,
      net_D_params = 0, net_D_training = True, net_D_requires_grad = True, net_D_grad = None,
      optimizer = 1 / 1000, optimizer_D = 1 / 1000,
      fake_A = 0, fake_B = 0, pred_fake_A = 0, pred_real = 0, pred_img_fake = 0, pred_fake = 0,
      loss = 0, loss_sum_G = 0, loss_sum_D = 0, logged = [], files = Map.empty,
      D_inputs = [], history_G = [], history_D = []\<rparr>"

text \<open>Four training samples, in the same order in every epoch, and two test samples.\<close>

definition stub_data :: "nat \<Rightarrow> process \<Rightarrow> real data" where
  "stub_data num_processes p =
     Trainer_init stub_env stub_args num_processes p
       (\<lambda>ep. [(2, 2, 2), (3, 3, 3), (4, 4, 4), (5, 5, 5)]) [(3, 3, 3), (5, 5, 5)]"

text \<open>
  The process of a run of one process, the two processes of a run on one machine, and
  the two processes of a run on two machines with one process each.
\<close>

definition main_process :: process where
  "main_process = \<lparr>process_index = 0, local_process_index = 0\<rparr>"

definition second_process_same_machine :: process where
  "second_process_same_machine = \<lparr>process_index = 1, local_process_index = 1\<rparr>"

definition second_process_other_machine :: process where
  "second_process_other_machine = \<lparr>process_index = 1, local_process_index = 0\<rparr>"

text \<open>
  What the sum-reduction returns to a process whose value is \<open>x\<close> when the other
  processes of the run contribute \<open>others\<close> in all.
\<close>

definition stub_reduce :: "real \<Rightarrow> nat \<Rightarrow> real \<Rightarrow> real" where
  "stub_reduce others ep x = x + others"

text \<open>
  The state of the stand-in trainer after the first epoch when the logged PSNR is
  \<open>psnr\<close>, and after the first step of the second epoch.
\<close>

definition stub_after_epoch :: "real \<Rightarrow> (real, real, real, real, real) trainer" where
  "stub_after_epoch psnr =
     \<lparr>net_G_params = 0, net_G_training = False, net_G_requires_grad = False, net_G_grad = Some 0,
      net_D_params = 0, net_D_training = True, net_D_requires_grad = True, net_D_grad = Some 0,
      optimizer = 1 / 1000, optimizer_D = 1 / 1000,
      fake_A = 5, fake_B = 5, pred_fake_A = 5, pred_real = 5, pred_img_fake = 5, pred_fake = 5,
      loss = 33, loss_sum_G = 16, loss_sum_D = 33,
      logged = [TrainLog \<lparr>log_ep = 1, log_epochs = 2, log_step_no = 1, log_len = 4,
                          log_loss_G = 1 / 2, log_loss_D = 9 / 4, log_lr = 1 / 1000\<rparr>,
                TrainLog \<lparr>log_ep = 1, log_epochs = 2, log_step_no = 3, log_len = 4,
                          log_loss_G = 13 / 2, log_loss_D = 63 / 4, log_lr = 1 / 1000\<rparr>,
                PsnrLog psnr],
      files = [''output_GAN/ep_0.pth'' \<mapsto> 0],
      D_inputs = [2, 2, 2, 2, 3, 3, 3, 3, 4, 4, 4, 4, 5, 5, 5, 5],
      history_G = [1, 4, 9, 16], history_D = [9 / 2, 11, 41 / 2, 33]\<rparr>"


text \<open>The state of the stand-in trainer after both epochs of the run.\<close>

definition stub_after_run :: "real \<Rightarrow> real \<Rightarrow> (real, real, real, real, real) trainer" where
  "stub_after_run psnr psnr' =
     (stub_after_epoch psnr)
       \<lparr>logged := logged (stub_after_epoch psnr) @
          [TrainLog \<lparr>log_ep = 2, log_epochs = 2, log_step_no = 1, log_len = 4,
                     log_loss_G = 17 / 2, log_loss_D = 75 / 4, log_lr = 1 / 1000\<rparr>,
           TrainLog \<lparr>log_ep = 2, log_epochs = 2, log_step_no = 3, log_len = 4,
                     log_loss_G = 13 / 2, log_loss_D = 63 / 4, log_lr = 1 / 1000\<rparr>,
           PsnrLog psnr'],
        files := [''output_GAN/ep_0.pth'' \<mapsto> 0, ''output_GAN/ep_1.pth'' \<mapsto> 0],
        D_inputs := D_inputs (stub_after_epoch psnr) @ D_inputs (stub_after_epoch psnr),
        history_G := [1, 4, 9, 16, 1, 4, 9, 16],
        history_D := [9 / 2, 11, 41 / 2, 33, 9 / 2, 11, 41 / 2, 33]\<rparr>"

section \<open>Properties of the geometry transform\<close>









text \<open>
  The float arithmetic of the source is part of the result: for an image 800 wide and
  803 high and a target size of 800, the quotient \<^verbatim>\<open>803/800\<close> is rounded down and the
  scaled height is 802, while \<open>\<lfloor>803 * 800 / 800\<rfloor>\<close> is 803.
\<close>

lemma scaled_height_rounding: "scaled_height 803 800 800 = Inr 802"
  by code_simp








section \<open>Properties of a training step\<close>

lemmas stmt_defs =
  net_G_train_def net_G_eval_def net_G_set_requires_grad_def
  net_D_train_def net_D_eval_def net_D_set_requires_grad_def
  optimizer_zero_grad_def optimizer_D_zero_grad_def forward_G_def forward_D_def
  set_fake_A_def set_fake_B_def set_pred_fake_A_def set_loss_G_def backward_G_def
  optimizer_step_def add_loss_sum_G_def set_pred_real_def set_pred_img_fake_def
  set_pred_fake_def set_loss_D_def backward_D_def optimizer_D_step_def add_loss_sum_D_def

text \<open>
  Claim C1. After the generator phase of a step, from any state and for any batch, the
  loss is the adversarial loss of \<open>pred_fake_A\<close> against the label 1 plus \<open>alpha\<close> times
  the reconstruction loss of the clean image and \<open>fake_B\<close>, where \<open>fake_A\<close> and \<open>fake_B\<close>
  are the outputs of the generator (in training mode, with the parameters it had before
  the phase) on the watermarked image and on the synthetic-watermark image, and
  \<open>pred_fake_A\<close> is the output of the discriminator (in evaluation mode) on \<open>fake_A\<close>.
  The phase passes exactly one input through the discriminator: \<open>fake_A\<close>.
\<close>

theorem generator_loss_composition:
  "loss (run (generator_phase E a (img, img_clean, fake_mark)) s)
     = criterion_gan E (net_D E False (net_D_params s) (net_G E True (net_G_params s) img)) 1
       + alpha a * criterion E img_clean (net_G E True (net_G_params s) fake_mark)
   \<and> fake_A (run (generator_phase E a (img, img_clean, fake_mark)) s) = net_G E True (net_G_params s) img
   \<and> fake_B (run (generator_phase E a (img, img_clean, fake_mark)) s) = net_G E True (net_G_params s) fake_mark
   \<and> pred_fake_A (run (generator_phase E a (img, img_clean, fake_mark)) s)
       = net_D E False (net_D_params s) (net_G E True (net_G_params s) img)
   \<and> D_inputs (run (generator_phase E a (img, img_clean, fake_mark)) s)
       = D_inputs s @ [net_G E True (net_G_params s) img]"
  by (simp add: generator_phase_def stmt_defs valid_def)


text \<open>
  Claim C3 says that exactly one network is trainable at any instant within a phase. In
  the source each phase starts with four statements that set the modes one after the
  other, so the claim fails between them. In the second step of a run, after line 103
  of the generator phase both networks are trainable (the discriminator still is, from
  the discriminator phase of the step before), and after line 121 of the discriminator
  phase neither is.
\<close>

theorem both_trainable_counterexample:
  "net_G_requires_grad
     (instants (generator_phase stub_env stub_args (3, 3, 3))
        (run (discriminator_phase stub_env (2, 2, 2))
           (run (generator_phase stub_env stub_args (2, 2, 2)) stub_trainer)) ! 1)
   \<and> net_D_requires_grad
     (instants (generator_phase stub_env stub_args (3, 3, 3))
        (run (discriminator_phase stub_env (2, 2, 2))
           (run (generator_phase stub_env stub_args (2, 2, 2)) stub_trainer)) ! 1)
   \<and> \<not> exactly_one_trainable
     (instants (generator_phase stub_env stub_args (3, 3, 3))
        (run (discriminator_phase stub_env (2, 2, 2))
           (run (generator_phase stub_env stub_args (2, 2, 2)) stub_trainer)) ! 1)
   \<and> \<not> net_G_requires_grad
     (instants (discriminator_phase stub_env (2, 2, 2))
        (run (generator_phase stub_env stub_args (2, 2, 2)) stub_trainer) ! 1)
   \<and> \<not> net_D_requires_grad
     (instants (discriminator_phase stub_env (2, 2, 2))
        (run (generator_phase stub_env stub_args (2, 2, 2)) stub_trainer) ! 1)"
  by (simp add: generator_phase_def discriminator_phase_def exactly_one_trainable_def stmt_defs
      stub_trainer_def stub_env_def)

text \<open>
  Claim C3, amended. In each phase, from any state and for any batch, exactly one
  network is trainable at every instant from the end of the four mode-setting statements
  to the end of the phase (the clearing of the gradients, all forward passes, the
  backward pass, the optimizer step and the accumulation). The parameters of the
  discriminator are the same after every statement of the generator phase as before
  the phase, and the parameters of the generator are the same after every statement of
  the discriminator phase as before it.
\<close>

theorem phase_exclusivity:
  "list_all exactly_one_trainable (drop 3 (instants (generator_phase E a b) s))
   \<and> list_all (\<lambda>x. net_D_params x = net_D_params s) (instants (generator_phase E a b) s)
   \<and> net_D_params (run (generator_phase E a b) s) = net_D_params s
   \<and> list_all exactly_one_trainable (drop 3 (instants (discriminator_phase E b) s))
   \<and> list_all (\<lambda>x. net_G_params x = net_G_params s) (instants (discriminator_phase E b) s)
   \<and> net_G_params (run (discriminator_phase E b) s) = net_G_params s"
  by (cases b)
    (simp add: generator_phase_def discriminator_phase_def stmt_defs exactly_one_trainable_def
      split: option.splits)

section \<open>Properties of the training loop\<close>

subsection \<open>What a step, the step loop and an epoch do to the accumulators\<close>

lemma gen_effect:
  "history_G (run (generator_phase E a b) s) = history_G s @ [loss (run (generator_phase E a b) s)]
   \<and> history_D (run (generator_phase E a b) s) = history_D s
   \<and> loss_sum_G (run (generator_phase E a b) s) = loss_sum_G s + loss (run (generator_phase E a b) s)
   \<and> loss_sum_D (run (generator_phase E a b) s) = loss_sum_D s
   \<and> files (run (generator_phase E a b) s) = files s
   \<and> logged (run (generator_phase E a b) s) = logged s"
  by (cases b) (simp add: generator_phase_def stmt_defs split: option.splits)

lemma disc_effect:
  "history_G (run (discriminator_phase E b) s) = history_G s
   \<and> history_D (run (discriminator_phase E b) s) = history_D s @ [loss (run (discriminator_phase E b) s)]
   \<and> loss_sum_G (run (discriminator_phase E b) s) = loss_sum_G s
   \<and> loss_sum_D (run (discriminator_phase E b) s) = loss_sum_D s + loss (run (discriminator_phase E b) s)
   \<and> files (run (discriminator_phase E b) s) = files s
   \<and> logged (run (discriminator_phase E b) s) = logged s
   \<and> optimizer (run (discriminator_phase E b) s) = optimizer s
   \<and> net_G_params (run (discriminator_phase E b) s) = net_G_params s"
  by (cases b) (simp add: discriminator_phase_def stmt_defs split: option.splits)

lemma train_step_effect:
  assumes "log_step a \<noteq> 0"
  shows "\<exists>s' g dl. train_step E a p ep k n b s = Inr s'
     \<and> history_G s' = history_G s @ [g] \<and> history_D s' = history_D s @ [dl]
     \<and> loss_sum_G s' = (if int k mod log_step a = 0 then 0 else loss_sum_G s + g)
     \<and> loss_sum_D s' = (if int k mod log_step a = 0 then 0 else loss_sum_D s + dl)
     \<and> files s' = files s
     \<and> (\<not> is_local_main_process p \<longrightarrow> logged s' = logged s)
     \<and> (is_local_main_process p \<and> int k mod log_step a = 0 \<longrightarrow>
          logged s' = logged s @
            [TrainLog \<lparr>log_ep = ep + 1, log_epochs = epochs a, log_step_no = k + 1, log_len = n,
                       log_loss_G = (loss_sum_G s + g) / real_of_int (log_step a),
                       log_loss_D = (loss_sum_D s + dl) / real_of_int (log_step a),
                       log_lr = param_group_lr E (optimizer s')\<rparr>])"
proof -
  define s1 where "s1 = run (generator_phase E a b) s"
  define s2 where "s2 = run (discriminator_phase E b) s1"
  define g where "g = loss s1"
  define dl where "dl = loss s2"
  have h1: "history_G s1 = history_G s @ [g]" "history_D s1 = history_D s"
    "loss_sum_G s1 = loss_sum_G s + g" "loss_sum_D s1 = loss_sum_D s"
    "files s1 = files s" "logged s1 = logged s"
    unfolding s1_def g_def using gen_effect [of E a b s] by simp_all
  have h2: "history_G s2 = history_G s1" "history_D s2 = history_D s1 @ [dl]"
    "loss_sum_G s2 = loss_sum_G s1" "loss_sum_D s2 = loss_sum_D s1 + dl"
    "files s2 = files s1" "logged s2 = logged s1"
    unfolding s2_def dl_def using disc_effect [of E b s1] by simp_all
  have t: "train_step E a p ep k n b s = log_checkpoint E a p ep k n s2"
    by (simp add: train_step_def s2_def s1_def)
  show ?thesis
    unfolding t using assms h1 h2
    by (simp add: log_checkpoint_def logger_info_def)
qed


lemma step_loop_effect:
  assumes "log_step a \<noteq> 0"
  shows "\<exists>s' hG hD. step_loop E a p ep k n batches s = Inr s'
     \<and> history_G s' = history_G s @ hG \<and> length hG = length batches
     \<and> history_D s' = history_D s @ hD \<and> length hD = length batches
     \<and> loss_sum_G s' = window_sum (log_step a) k hG (loss_sum_G s)
     \<and> loss_sum_D s' = window_sum (log_step a) k hD (loss_sum_D s)
     \<and> files s' = files s
     \<and> (\<not> is_local_main_process p \<longrightarrow> logged s' = logged s)"
proof (induction batches arbitrary: k s)
  case Nil
  show ?case by simp
next
  case (Cons b batches)
  obtain s1 g dl where s1: "train_step E a p ep k n b s = Inr s1"
    "history_G s1 = history_G s @ [g]" "history_D s1 = history_D s @ [dl]"
    "loss_sum_G s1 = (if int k mod log_step a = 0 then 0 else loss_sum_G s + g)"
    "loss_sum_D s1 = (if int k mod log_step a = 0 then 0 else loss_sum_D s + dl)"
    "files s1 = files s" "\<not> is_local_main_process p \<longrightarrow> logged s1 = logged s"
    using train_step_effect [OF assms, of E p ep k n b s] by blast
  obtain s' hG hD where s': "step_loop E a p ep (Suc k) n batches s1 = Inr s'"
    "history_G s' = history_G s1 @ hG" "length hG = length batches"
    "history_D s' = history_D s1 @ hD" "length hD = length batches"
    "loss_sum_G s' = window_sum (log_step a) (Suc k) hG (loss_sum_G s1)"
    "loss_sum_D s' = window_sum (log_step a) (Suc k) hD (loss_sum_D s1)"
    "files s' = files s1" "\<not> is_local_main_process p \<longrightarrow> logged s' = logged s1"
    using Cons.IH [of "Suc k" s1] by blast
  have a1: "step_loop E a p ep k n (b # batches) s = Inr s'"
    using s1(1) s'(1) by simp
  have a2: "history_G s' = history_G s @ (g # hG)" "length (g # hG) = length (b # batches)"
    "history_D s' = history_D s @ (dl # hD)" "length (dl # hD) = length (b # batches)"
    using s1(2,3) s'(2-5) by simp_all
  have a3: "loss_sum_G s' = window_sum (log_step a) k (g # hG) (loss_sum_G s)"
    "loss_sum_D s' = window_sum (log_step a) k (dl # hD) (loss_sum_D s)"
    using s1(4,5) s'(6,7) by simp_all
  have a4: "files s' = files s" "\<not> is_local_main_process p \<longrightarrow> logged s' = logged s"
    using s1(6,7) s'(8,9) by simp_all
  show ?case
    using a1 a2 a3 a4 by blast
qed




lemma test_frame:
  "loss_sum_G (test E d p r s) = loss_sum_G s \<and> loss_sum_D (test E d p r s) = loss_sum_D s
   \<and> history_G (test E d p r s) = history_G s \<and> history_D (test E d p r s) = history_D s
   \<and> files (test E d p r s) = files s \<and> net_G_params (test E d p r s) = net_G_params s
   \<and> (\<not> is_local_main_process p \<longrightarrow> logged (test E d p r s) = logged s)"
  by (simp add: test_def Let_def logger_info_def net_G_eval_def)



subsection \<open>The stand-in run\<close>

lemma chunks_stub:
  "chunks (Suc 0) [x1, x2, x3, x4] = [[x1], [x2], [x3], [x4]]"
  "chunks (Suc 0) [x1, x2] = [[x1], [x2]]"
  by (simp_all add: chunks.simps)

lemma stub_data_eq:
  "train_loader (stub_data k p) ep = [(2, 2, 2), (3, 3, 3), (4, 4, 4), (5, 5, 5)]"
  "test_loader (stub_data k p) = [(3, 3, 3), (5, 5, 5)]"
  "data_test (stub_data k p) = [(3, 3, 3), (5, 5, 5)]"
  by (simp_all add: stub_data_def Trainer_init_def build_data_def DataLoader_def stub_env_def
      stub_args_def Let_def chunks_stub)

lemma step_stub:
  "run (discriminator_phase stub_env (x, x, x)) (run (generator_phase stub_env stub_args (x, x, x)) s)
   = s\<lparr>net_G_training := False, net_G_requires_grad := False, net_G_grad := Some 0,
        net_D_training := True, net_D_requires_grad := True, net_D_grad := Some 0,
        fake_A := x, fake_B := x, pred_fake_A := x, pred_real := x, pred_img_fake := x, pred_fake := x,
        loss := ((x - 1) * (x - 1) + x * x + x * x) / 2,
        loss_sum_G := loss_sum_G s + (x - 1) * (x - 1),
        loss_sum_D := loss_sum_D s + ((x - 1) * (x - 1) + x * x + x * x) / 2,
        D_inputs := D_inputs s @ [x, x, x, x],
        history_G := history_G s @ [(x - 1) * (x - 1)],
        history_D := history_D s @ [((x - 1) * (x - 1) + x * x + x * x) / 2]\<rparr>"
  by (simp add: generator_phase_def discriminator_phase_def stmt_defs stub_env_def stub_args_def
      valid_def fake_def detach_def)

lemma log_stub:
  assumes "local_process_index p = 0"
  shows "log_checkpoint stub_env stub_args p ep step n s =
     Inr (if even step
          then s\<lparr>logged := logged s @
                    [TrainLog \<lparr>log_ep = ep + 1, log_epochs = 2, log_step_no = step + 1, log_len = n,
                               log_loss_G = loss_sum_G s / 2, log_loss_D = loss_sum_D s / 2,
                               log_lr = optimizer s\<rparr>],
                 loss_sum_G := 0, loss_sum_D := 0\<rparr>
          else s)"
proof -
  have "(int step mod 2 = 0) = even step"
    by presburger
  then show ?thesis
    using assms
    by (simp add: log_checkpoint_def logger_info_def is_local_main_process_def
        stub_args_def stub_env_def)
qed

lemma local_psnr_stub: "local_psnr stub_env (stub_data k p) s = 60"
  by (simp add: local_psnr_def stub_data_eq) (simp add: stub_env_def)

lemma test_stub:
  assumes "local_process_index p = 0"
  shows "test stub_env (stub_data k p) p r s
     = s\<lparr>net_G_training := False, logged := logged s @ [PsnrLog (r 60 / 2)]\<rparr>"
  using assms
  by (simp add: test_def stub_data_eq net_G_eval_def Let_def logger_info_def
      is_local_main_process_def) (simp add: stub_env_def)

lemma checkpoint_path_0: "checkpoint_path 0 = ''output_GAN/ep_0.pth''"
  by (simp add: checkpoint_path_def str.simps digit_def)

lemma epoch_stub:
  assumes "local_process_index p = 0"
  shows "epoch_body stub_env stub_args (stub_data k p) p (stub_reduce others) 0 stub_trainer
     = Inr (stub_after_epoch ((60 + others) / 2))"
  using assms
  by (simp add: epoch_body_def stub_data_eq train_step_def step_stub log_stub test_stub
      save_checkpoint_def is_local_main_process_def checkpoint_path_0 stub_reduce_def)
    (simp add: stub_trainer_def stub_after_epoch_def)


subsection \<open>The running-loss accumulators\<close>



text \<open>
  Claim C6 says that every log line reports, for each network, the accumulated loss
  divided by the window \<open>L\<close>, over exactly \<open>L\<close> steps. The source logs when
  \<^verbatim>\<open>step % log_step == 0\<close> with a step number that starts at 0 in every epoch, so the
  first line is written after the first step: with \<open>L = 2\<close> it reports \<open>1 / 2\<close> and
  \<open>9 / 4\<close>, half the losses 1 and \<open>9 / 2\<close> of the only step of its window.
\<close>

theorem first_log_line_stub:
  "log_step stub_args = 2
   \<and> epoch_body stub_env stub_args (stub_data 1 main_process) main_process (stub_reduce 0) 0 stub_trainer
     = Inr (stub_after_epoch 30)
   \<and> logged (stub_after_epoch 30) ! 0 =
        TrainLog \<lparr>log_ep = 1, log_epochs = 2, log_step_no = 1, log_len = 4,
                  log_loss_G = 1 / 2, log_loss_D = 9 / 4, log_lr = 1 / 1000\<rparr>
   \<and> history_G (stub_after_epoch 30) ! 0 = 1
   \<and> history_D (stub_after_epoch 30) ! 0 = 9 / 2"
proof -
  have p: "local_process_index main_process = 0"
    by (simp add: main_process_def)
  show ?thesis
    using epoch_stub [OF p, of 1 0] by (simp add: stub_args_def stub_after_epoch_def)
qed

subsection \<open>The mean PSNR of a run of several processes\<close>

text \<open>
  Claim C4 says that the reported mean is the sum of the local sums divided by the
  number of samples they are over. In the source every process iterates
  \<^verbatim>\<open>self.test_loader\<close>, the loader of the whole test set, because \<^verbatim>\<open>__init__\<close> drops
  the loaders that \<^verbatim>\<open>prepare\<close> returns. For two processes and two test samples of PSNR
  30 each, both local sums are 60, over 2 samples each, and every process reports
  \<open>(60 + 60) / 2 = 60\<close>, while \<open>(60 + 60) / (2 + 2) = 30\<close>. The dropped loaders hold one
  batch each.
\<close>

theorem psnr_two_processes_stub:
  "test_all stub_env
     [(stub_data 2 main_process, stub_trainer), (stub_data 2 second_process_same_machine, stub_trainer)]
     = [60, 60]
   \<and> local_psnr stub_env (stub_data 2 main_process) stub_trainer = 60
   \<and> local_psnr stub_env (stub_data 2 second_process_same_machine) stub_trainer = 60
   \<and> test_loader (stub_data 2 main_process) = [(3, 3, 3), (5, 5, 5)]
   \<and> test_loader (stub_data 2 second_process_same_machine) = [(3, 3, 3), (5, 5, 5)]
   \<and> data_test (stub_data 2 main_process) = [(3, 3, 3), (5, 5, 5)]
   \<and> prepare_loader 2 main_process (test_loader (stub_data 2 main_process)) = [(3, 3, 3)]
   \<and> prepare_loader 2 second_process_same_machine
        (test_loader (stub_data 2 second_process_same_machine)) = [(5, 5, 5)]"
  by (simp add: test_all_def reduce_sum_def local_psnr_stub stub_data_eq prepare_loader_def
      main_process_def second_process_same_machine_def upt_rec [of 0] upt_rec [of 1])

subsection \<open>Checkpoints\<close>

lemma str_nonempty: "str n \<noteq> []"
  by (subst str.simps) simp

lemma digit_inj:
  assumes "i < 10" "j < 10" "digit i = digit j"
  shows "i = j"
proof -
  have d: "distinct ''0123456789''" by simp
  have l: "length ''0123456789'' = 10" by simp
  show ?thesis
    using assms nth_eq_iff_index_eq [OF d, of i j] unfolding digit_def l by simp
qed

lemma str_inj: "str m = str n \<Longrightarrow> m = n"
proof (induction m arbitrary: n rule: str.induct)
  case (1 m)
  show ?case
  proof (cases "m < 10")
    case True
    note m = True
    show ?thesis
    proof (cases "n < 10")
      case True
      then show ?thesis
        using m "1.prems" digit_inj [of m n] by (simp add: str.simps [of m] str.simps [of n])
    next
      case False
      then show ?thesis
        using m "1.prems" str_nonempty [of "n div 10"]
        by (simp add: str.simps [of m] str.simps [of n])
    qed
  next
    case False
    note m = False
    show ?thesis
    proof (cases "n < 10")
      case True
      then show ?thesis
        using m "1.prems" str_nonempty [of "m div 10"]
        by (simp add: str.simps [of m] str.simps [of n])
    next
      case False
      then have e: "str (m div 10) = str (n div 10)" "digit (m mod 10) = digit (n mod 10)"
        using m "1.prems" by (simp_all add: str.simps [of m] str.simps [of n])
      have q: "m div 10 = n div 10"
        using "1.IH" [OF m e(1)] .
      have r: "m mod 10 = n mod 10"
        using digit_inj [of "m mod 10" "n mod 10"] e(2) by simp
      show ?thesis
        using q r by (metis div_mult_mod_eq)
    qed
  qed
qed

lemma checkpoint_path_inj: "inj checkpoint_path"
  by (rule injI) (simp add: checkpoint_path_def str_inj)

lemma step_loop_files:
  assumes "step_loop E a p ep k n batches s = Inr s'"
  shows "files s' = files s \<and> (\<not> is_local_main_process p \<longrightarrow> logged s' = logged s)"
proof (cases "log_step a = 0")
  case True
  show ?thesis
  proof (cases batches)
    case Nil
    then show ?thesis using assms by simp
  next
    case (Cons b rest)
    have "train_step E a p ep k n b s = Inl ZeroDivisionError"
      using True by (simp add: train_step_def log_checkpoint_def)
    then show ?thesis
      using assms Cons by simp
  qed
next
  case False
  show ?thesis
    using step_loop_effect [OF False, of E p ep k n batches s] assms by auto
qed

lemma epoch_body_files:
  assumes "epoch_body E a d p reduce ep s = Inr s1"
  shows "(is_local_main_process p \<longrightarrow> files s1 = (files s)(checkpoint_path ep \<mapsto> net_G_params s1))
       \<and> (\<not> is_local_main_process p \<longrightarrow> files s1 = files s \<and> logged s1 = logged s)"
proof -
  obtain s' where s': "step_loop E a p ep 0 (length (train_loader d ep)) (train_loader d ep) s = Inr s'"
    and s1: "s1 = save_checkpoint p ep (test E d p (reduce ep) s')"
    using assms by (auto simp: epoch_body_def split: sum.splits)
  have f: "files s' = files s" "\<not> is_local_main_process p \<longrightarrow> logged s' = logged s"
    using step_loop_files [OF s'] by simp_all
  show ?thesis
    unfolding s1 using f test_frame [of E d p "reduce ep" s']
    by (simp add: save_checkpoint_def)
qed

lemma epoch_loop_files:
  assumes "epoch_loop E a d p reduce eps s = Inr s'"
  shows "(is_local_main_process p \<longrightarrow> dom (files s') = dom (files s) \<union> checkpoint_path ` set eps)
       \<and> (\<not> is_local_main_process p \<longrightarrow> files s' = files s \<and> logged s' = logged s)"
  using assms
proof (induction eps arbitrary: s)
  case Nil
  then show ?case by simp
next
  case (Cons ep eps)
  obtain s1 where s1: "epoch_body E a d p reduce ep s = Inr s1"
    and r: "epoch_loop E a d p reduce eps s1 = Inr s'"
    using Cons.prems by (auto split: sum.splits)
  show ?case
  proof (cases "is_local_main_process p")
    case True
    have "files s1 = (files s)(checkpoint_path ep \<mapsto> net_G_params s1)"
      using epoch_body_files [OF s1] True by simp
    then have "dom (files s1) = insert (checkpoint_path ep) (dom (files s))"
      by (metis dom_fun_upd option.distinct(1))
    moreover have "dom (files s') = dom (files s1) \<union> checkpoint_path ` set eps"
      using Cons.IH [OF r] True by simp
    ultimately show ?thesis
      using True by auto
  next
    case False
    then show ?thesis
      using epoch_body_files [OF s1] Cons.IH [OF r] by simp
  qed
qed

lemma epoch_loop_total:
  assumes "log_step a \<noteq> 0"
  shows "\<exists>s'. epoch_loop E a d p reduce eps s = Inr s'"
proof (induction eps arbitrary: s)
  case Nil
  show ?case by simp
next
  case (Cons ep eps)
  obtain s1 where "step_loop E a p ep 0 (length (train_loader d ep)) (train_loader d ep) s = Inr s1"
    using step_loop_effect [OF assms, of E p ep 0 "length (train_loader d ep)" "train_loader d ep" s]
    by blast
  then have "epoch_body E a d p reduce ep s = Inr (save_checkpoint p ep (test E d p (reduce ep) s1))"
    by (simp add: epoch_body_def)
  then show ?case
    using Cons.IH by simp
qed

lemma checkpoint_path_1: "checkpoint_path 1 = ''output_GAN/ep_1.pth''"
  by (simp add: checkpoint_path_def str.simps digit_def)

lemma epoch_stub_1:
  assumes "local_process_index p = 0"
  shows "epoch_body stub_env stub_args (stub_data k p) p (stub_reduce others) (Suc 0) (stub_after_epoch x)
     = Inr (stub_after_run x ((60 + others) / 2))"
  using assms checkpoint_path_1
  by (simp add: epoch_body_def stub_data_eq train_step_def step_stub log_stub test_stub
      save_checkpoint_def is_local_main_process_def stub_reduce_def)
    (simp add: stub_after_epoch_def stub_after_run_def)

lemma epochs_stub: "[0..<nat (epochs stub_args)] = [0, Suc 0]"
  by (simp add: stub_args_def upt_rec [of 0] upt_rec [of 1] numeral_2_eq_2)

lemma train_stub:
  assumes "local_process_index p = 0"
  shows "train stub_env stub_args (stub_data k p) p (stub_reduce others) stub_trainer
     = Inr (stub_after_run ((60 + others) / 2) ((60 + others) / 2))"
proof -
  have z: "stub_trainer\<lparr>loss_sum_G := 0, loss_sum_D := 0\<rparr> = stub_trainer"
    by (simp add: stub_trainer_def)
  show ?thesis
    using epoch_stub [OF assms, of k others] epoch_stub_1 [OF assms, of k others]
    by (simp add: train_def epochs_stub z)
qed

text \<open>
  Claim C8 says that the checkpoint is written on a single process of a run. The source
  writes it where \<^verbatim>\<open>is_local_main_process\<close> holds, which is the process of local index
  0 on every machine. In a run of two processes on two machines both processes are
  local main processes, and both write \<^verbatim>\<open>output_GAN/ep_0.pth\<close> after the first epoch.
\<close>

theorem two_machines_both_write_counterexample:
  "process_index main_process \<noteq> process_index second_process_other_machine
   \<and> is_local_main_process main_process
   \<and> is_local_main_process second_process_other_machine
   \<and> epoch_body stub_env stub_args (stub_data 2 main_process) main_process (stub_reduce 60) 0
       stub_trainer = Inr (stub_after_epoch 60)
   \<and> epoch_body stub_env stub_args (stub_data 2 second_process_other_machine)
       second_process_other_machine (stub_reduce 60) 0 stub_trainer = Inr (stub_after_epoch 60)
   \<and> files stub_trainer ''output_GAN/ep_0.pth'' = None
   \<and> files (stub_after_epoch 60) ''output_GAN/ep_0.pth'' = Some 0"
proof -
  have p: "local_process_index main_process = 0"
    and q: "local_process_index second_process_other_machine = 0"
    by (simp_all add: main_process_def second_process_other_machine_def)
  show ?thesis
    using epoch_stub [OF p, of 2 60] epoch_stub [OF q, of 2 60]
    by (simp add: is_local_main_process_def main_process_def second_process_other_machine_def
        stub_trainer_def stub_after_epoch_def)
qed

text \<open>
  Claim C8, amended. In a run of \<^verbatim>\<open>train\<close> that returns, a process for which
  \<^verbatim>\<open>is_local_main_process\<close> holds (the process of local index 0 on its machine: a
  single process when the run is on one machine) has written exactly the files
  \<^verbatim>\<open>output_GAN/ep_<ep>.pth\<close> for the epochs \<open>ep\<close> from 0 up to \<open>epochs - 1\<close>, one per
  epoch since the names differ for different epochs; after the step loop and the
  evaluation of epoch \<open>ep\<close> its file \<^verbatim>\<open>ep_<ep>.pth\<close> holds the parameters of the
  generator as they are then, and nothing else. Every other process writes no file and
  logs nothing.
\<close>

theorem checkpoints_of_a_run:
  assumes "train E a d p reduce s = Inr s'"
  shows "(is_local_main_process p \<longrightarrow>
            dom (files s') = dom (files s) \<union> checkpoint_path ` {0..<nat (epochs a)})
       \<and> (\<not> is_local_main_process p \<longrightarrow> files s' = files s \<and> logged s' = logged s)
       \<and> inj checkpoint_path
       \<and> checkpoint_path ep = ''output_GAN/ep_'' @ str ep @ ''.pth''
       \<and> (\<forall>s0 s1. epoch_body E a d p reduce ep s0 = Inr s1 \<longrightarrow>
             (if is_local_main_process p
              then files s1 = (files s0)(checkpoint_path ep \<mapsto> net_G_params s1)
              else files s1 = files s0))"
proof -
  have r: "epoch_loop E a d p reduce [0..<nat (epochs a)] (s\<lparr>loss_sum_G := 0, loss_sum_D := 0\<rparr>) = Inr s'"
    using assms by (simp add: train_def)
  have a1: "is_local_main_process p \<longrightarrow>
            dom (files s') = dom (files s) \<union> checkpoint_path ` {0..<nat (epochs a)}"
    and a2: "\<not> is_local_main_process p \<longrightarrow> files s' = files s \<and> logged s' = logged s"
    using epoch_loop_files [OF r] by simp_all
  have a3: "checkpoint_path ep = ''output_GAN/ep_'' @ str ep @ ''.pth''"
    by (simp add: checkpoint_path_def)
  have a4: "\<forall>s0 s1. epoch_body E a d p reduce ep s0 = Inr s1 \<longrightarrow>
             (if is_local_main_process p
              then files s1 = (files s0)(checkpoint_path ep \<mapsto> net_G_params s1)
              else files s1 = files s0)"
    using epoch_body_files [of E a d p reduce ep] by simp
  show ?thesis
    using a1 a2 a3 a4 checkpoint_path_inj by blast
qed

text \<open>
  The witness: in the stand-in run of two epochs the main process writes
  \<^verbatim>\<open>ep_0.pth\<close> and \<^verbatim>\<open>ep_1.pth\<close>, and the second process of a run on one machine
  writes nothing.
\<close>

theorem checkpoints_of_a_run_witness:
  "train stub_env stub_args (stub_data 1 main_process) main_process (stub_reduce 0) stub_trainer
     = Inr (stub_after_run 30 30)
   \<and> dom (files (stub_after_run 30 30)) = checkpoint_path ` {0, 1}
   \<and> checkpoint_path ` {0, 1} = {''output_GAN/ep_0.pth'', ''output_GAN/ep_1.pth''}
   \<and> (\<exists>s'. train stub_env stub_args (stub_data 2 second_process_same_machine)
               second_process_same_machine (stub_reduce 60) stub_trainer = Inr s'
            \<and> files s' = Map.empty \<and> logged s' = [])"
proof -
  have p: "local_process_index main_process = 0"
    by (simp add: main_process_def)
  have m: "is_local_main_process main_process"
    by (simp add: is_local_main_process_def p)
  have t: "train stub_env stub_args (stub_data 1 main_process) main_process (stub_reduce 0) stub_trainer
     = Inr (stub_after_run 30 30)"
    using train_stub [OF p, of 1 0] by simp
  have e: "{0..<nat (epochs stub_args)} = {0, 1}"
    by (auto simp: stub_args_def)
  have d: "dom (files (stub_after_run 30 30)) = checkpoint_path ` {0, 1}"
    using checkpoints_of_a_run [OF t] m e by (simp add: stub_trainer_def)
  have n: "\<not> is_local_main_process second_process_same_machine"
    by (simp add: is_local_main_process_def second_process_same_machine_def)
  have "log_step stub_args \<noteq> 0"
    by (simp add: stub_args_def)
  then obtain s' where
    s': "train stub_env stub_args (stub_data 2 second_process_same_machine)
           second_process_same_machine (stub_reduce 60) stub_trainer = Inr s'"
    unfolding train_def using epoch_loop_total by blast
  have "files s' = Map.empty \<and> logged s' = []"
    using checkpoints_of_a_run [OF s'] n by (simp add: stub_trainer_def)
  then show ?thesis
    using t d s' checkpoint_path_0 checkpoint_path_1 by simp
qed

end
